theory Spec2Isabelle
  imports Complex_Main "HOL-Library.Sublist" "HOL-Library.Word"
begin

unbundle bit_operations_syntax

section \<open>Values of the host language\<close>

text \<open>
  A TypeScript \<open>number\<close> is modelled by an exact rational: identifiers, years, credits,
  capacities and grade averages are all of this one type, as they are in the source.
  Rounding of IEEE doubles is outside the model. The one place where the source can
  leave the finite numbers is the division in \<open>getAverageGroupScore\<close>; its result type
  \<open>quotient\<close> has the three non-finite outcomes of a JavaScript division.

  Strings are \<open>string\<close>. The case conversions act on the ASCII letters and leave every
  other character as it is.
\<close>

type_synonym number = rat

datatype quotient = Finite number | NaN | PosInfinity | NegInfinity

definition js_div :: "number \<Rightarrow> number \<Rightarrow> quotient" where
  "js_div a b =
     (if b = 0 then (if a = 0 then NaN else if 0 < a then PosInfinity else NegInfinity)
      else Finite (a / b))"

definition toLowerCase_char :: "char \<Rightarrow> char" where
  "toLowerCase_char c =
     (let n = (of_char c :: nat) in if 65 \<le> n \<and> n \<le> 90 then char_of (n + 32) else c)"

definition toUpperCase_char :: "char \<Rightarrow> char" where
  "toUpperCase_char c =
     (let n = (of_char c :: nat) in if 97 \<le> n \<and> n \<le> 122 then char_of (n - 32) else c)"

definition toLowerCase :: "string \<Rightarrow> string" where
  "toLowerCase s = map toLowerCase_char s"

definition toLocaleUpperCase :: "string \<Rightarrow> string" where
  "toLocaleUpperCase s = map toUpperCase_char s"

text \<open>\<open>s.includes(sub)\<close>: is there a position of \<open>s\<close> at which \<open>sub\<close> starts.\<close>

fun includes_str :: "string \<Rightarrow> string \<Rightarrow> bool" where
  "includes_str [] sub = (sub = [])"
| "includes_str (x # xs) sub = (prefix sub (x # xs) \<or> includes_str xs sub)"

text \<open>
  Truthiness as the conditional operator tests it: the empty string and \<open>0\<close> are
  falsy, like \<open>undefined\<close>.
\<close>

definition truthy_string :: "string \<Rightarrow> bool" where
  "truthy_string s = (s \<noteq> [])"

definition truthy_number :: "number \<Rightarrow> bool" where
  "truthy_number n = (n \<noteq> 0)"

text \<open>
  \<open>xs.findIndex(p)\<close> scans from index 0 and returns the first index whose element
  satisfies \<open>p\<close>, or \<open>-1\<close>.
\<close>

fun findIndexFrom :: "('a \<Rightarrow> bool) \<Rightarrow> 'a list \<Rightarrow> int \<Rightarrow> int" where
  "findIndexFrom p [] k = - 1"
| "findIndexFrom p (x # xs) k = (if p x then k else findIndexFrom p xs (k + 1))"

definition findIndex :: "('a \<Rightarrow> bool) \<Rightarrow> 'a list \<Rightarrow> int" where
  "findIndex p xs = findIndexFrom p xs 0"

text \<open>
  \<open>~n\<close> converts its operand to a signed 32-bit integer and complements the bits;
  \<open>!m\<close> on a number is true exactly for \<open>0\<close>.
\<close>

definition bitwise_not :: "int \<Rightarrow> int" where
  "bitwise_not n = sint (NOT (word_of_int n :: 32 word))"

definition logical_not :: "int \<Rightarrow> bool" where
  "logical_not m = (m = 0)"

text \<open>
  \<open>xs.splice(start, deleteCount)\<close> with no inserted items: a negative \<open>start\<close> counts
  from the end, both arguments are clamped to the array.
\<close>

definition splice :: "'a list \<Rightarrow> int \<Rightarrow> int \<Rightarrow> 'a list" where
  "splice xs start deleteCount =
     (let len = int (length xs);
          s = (if start < 0 then max (len + start) 0 else min start len);
          d = min (max deleteCount 0) (len - s)
      in take (nat s) xs @ drop (nat (s + d)) xs)"

text \<open>
  Exceptions are values. A method that mutates its receiver returns an \<open>outcome\<close>,
  which carries the receiver as the method left it also when it threw; a method that
  only reads returns \<open>error + 'a\<close>.
\<close>

datatype error =
    LibraryError string
  | UniversityError string
  | Error string
  | TypeError

datatype 's outcome = Done 's | Throw error 's

section \<open>The library\<close>

text \<open>
  \<open>Book\<close> and \<open>Author\<close> objects live in a store and are held by reference:
  \<open>addBook\<close> compares references, not contents.
\<close>

type_synonym author_ref = nat
type_synonym book_ref = nat

record Author =
  author_name :: string
  author_id :: number

record Book =
  title :: string
  book_id :: number
  genre :: string
  year :: number
  author :: author_ref

record BookInfo =
  info_title :: string
  info_genre :: string
  info_year :: number
  info_author :: author_ref

text \<open>
  The constructors of \<open>Author\<close> and \<open>Book\<close> take their id from a counter of the
  class; its current value is the last argument.
\<close>

definition Author_constructor :: "string \<Rightarrow> number \<Rightarrow> Author" where
  "Author_constructor name' nextId = \<lparr>author_name = name', author_id = nextId\<rparr>"

definition Book_constructor :: "BookInfo \<Rightarrow> number \<Rightarrow> Book" where
  "Book_constructor info nextId =
     \<lparr>title = info_title info, book_id = nextId, genre = info_genre info,
      year = info_year info, author = info_author info\<rparr>"

record store =
  bookAt :: "book_ref \<Rightarrow> Book"
  authorAt :: "author_ref \<Rightarrow> Author"

record CriteriaBook =
  crit_title :: "string option"
  crit_genre :: "string option"
  crit_year :: "number option"
  crit_authorName :: "string option"

text \<open>
  The fields \<open>books\<close> and \<open>authors\<close> are declared without an initialiser, so they hold
  either an array or \<open>undefined\<close> (\<open>None\<close>).
\<close>

record Library =
  lib_name :: string
  books :: "book_ref list option"
  authors :: "author_ref list option"
  maxBooks :: number

definition Library_constructor :: "string \<Rightarrow> number \<Rightarrow> Library" where
  "Library_constructor name' maxBooks' =
     \<lparr>lib_name = name', books = None, authors = None, maxBooks = maxBooks'\<rparr>"

definition addBook :: "store \<Rightarrow> Library \<Rightarrow> book_ref \<Rightarrow> Library outcome" where
  "addBook h l book =
     (case books l of
        None \<Rightarrow> Throw TypeError l
      | Some bs \<Rightarrow>
          if book \<in> set bs then Throw (LibraryError ''Book is already in the library'') l
          else if maxBooks l \<le> of_nat (length bs)
            then Throw (LibraryError ''Storage of book is full'') l
          else
            (let l1 = l\<lparr>books := Some (bs @ [book])\<rparr> in
             case authors l1 of
               None \<Rightarrow> Throw TypeError l1
             | Some as \<Rightarrow> Done (l1\<lparr>authors := Some (as @ [author (bookAt h book)])\<rparr>)))"

definition getBooks :: "Library \<Rightarrow> error + book_ref list option" where
  "getBooks l = Inr (books l)"

definition getBookById :: "store \<Rightarrow> Library \<Rightarrow> number \<Rightarrow> error + book_ref option" where
  "getBookById h l i =
     (case books l of
        None \<Rightarrow> Inl TypeError
      | Some bs \<Rightarrow> Inr (find (\<lambda>book. book_id (bookAt h book) = i) bs))"

definition getAuthors :: "Library \<Rightarrow> error + author_ref list option" where
  "getAuthors l = Inr (authors l)"

definition getAuthorById :: "store \<Rightarrow> Library \<Rightarrow> number \<Rightarrow> error + author_ref option" where
  "getAuthorById h l i =
     (case authors l of
        None \<Rightarrow> Inl TypeError
      | Some as \<Rightarrow> Inr (find (\<lambda>a. author_id (authorAt h a) = i) as))"

datatype idOrName = IdNumber number | NameString string

fun getBooksByAuthor :: "store \<Rightarrow> Library \<Rightarrow> idOrName \<Rightarrow> error + book_ref list" where
  "getBooksByAuthor h l (IdNumber n) =
     (case books l of
        None \<Rightarrow> Inl TypeError
      | Some bs \<Rightarrow> Inr (filter (\<lambda>book. author_id (authorAt h (author (bookAt h book))) = n) bs))"
| "getBooksByAuthor h l (NameString s) =
     (case books l of
        None \<Rightarrow> Inl TypeError
      | Some bs \<Rightarrow>
          Inr (filter (\<lambda>book.
                 toLocaleUpperCase (author_name (authorAt h (author (bookAt h book))))
                   = toLocaleUpperCase s) bs))"

definition getAuthorByBookId :: "store \<Rightarrow> Library \<Rightarrow> number \<Rightarrow> error + author_ref option" where
  "getAuthorByBookId h l i =
     (case getBookById h l i of
        Inl e \<Rightarrow> Inl e
      | Inr None \<Rightarrow> Inl (LibraryError ''Havent this book'')
      | Inr (Some book) \<Rightarrow>
          getAuthorById h l (author_id (authorAt h (author (bookAt h book)))))"

definition matches :: "store \<Rightarrow> CriteriaBook \<Rightarrow> book_ref \<Rightarrow> bool" where
  "matches h criteria book =
     (let matchesTitle =
            (case crit_title criteria of
               None \<Rightarrow> False
             | Some t \<Rightarrow>
                 if truthy_string t
                 then includes_str (toLowerCase (title (bookAt h book))) (toLowerCase t)
                 else False);
          matchesGenre =
            (case crit_genre criteria of
               None \<Rightarrow> False
             | Some g \<Rightarrow>
                 if truthy_string g
                 then includes_str (toLowerCase (genre (bookAt h book))) (toLowerCase g)
                 else False);
          matchesYear =
            (case crit_year criteria of
               None \<Rightarrow> False
             | Some y \<Rightarrow> if truthy_number y then year (bookAt h book) = y else False);
          matchesAuthor =
            (case crit_authorName criteria of
               None \<Rightarrow> False
             | Some a \<Rightarrow>
                 if truthy_string a
                 then includes_str
                        (toLowerCase (author_name (authorAt h (author (bookAt h book)))))
                        (toLowerCase a)
                 else False)
      in matchesTitle \<or> matchesGenre \<or> matchesYear \<or> matchesAuthor)"

definition search :: "store \<Rightarrow> Library \<Rightarrow> CriteriaBook \<Rightarrow> error + book_ref list" where
  "search h l criteria =
     (case books l of
        None \<Rightarrow> Inl TypeError
      | Some bs \<Rightarrow> Inr (filter (matches h criteria) bs))"

text \<open>
  The matching rule as the specification words it: a book matches when a supplied field
  matches, title, genre and author name by case-insensitive containment, the year by
  equality. \<open>omit_empty\<close> removes from a criteria record the string fields that are
  supplied with the empty string.
\<close>

definition spec_matches :: "store \<Rightarrow> CriteriaBook \<Rightarrow> book_ref \<Rightarrow> bool" where
  "spec_matches h criteria book \<longleftrightarrow>
     (case crit_title criteria of
        None \<Rightarrow> False
      | Some t \<Rightarrow> sublist (toLowerCase t) (toLowerCase (title (bookAt h book))))
     \<or> (case crit_genre criteria of
          None \<Rightarrow> False
        | Some g \<Rightarrow> sublist (toLowerCase g) (toLowerCase (genre (bookAt h book))))
     \<or> (case crit_year criteria of
          None \<Rightarrow> False
        | Some y \<Rightarrow> year (bookAt h book) = y)
     \<or> (case crit_authorName criteria of
          None \<Rightarrow> False
        | Some a \<Rightarrow>
            sublist (toLowerCase a)
              (toLowerCase (author_name (authorAt h (author (bookAt h book))))))"

definition omit_empty :: "CriteriaBook \<Rightarrow> CriteriaBook" where
  "omit_empty criteria =
     criteria
       \<lparr>crit_title := (if crit_title criteria = Some [] then None else crit_title criteria),
        crit_genre := (if crit_genre criteria = Some [] then None else crit_genre criteria),
        crit_authorName :=
          (if crit_authorName criteria = Some [] then None else crit_authorName criteria)\<rparr>"

text \<open>
  The objects that the source creates after the class definitions: two authors and
  three books, whose ids come from the counters \<open>Author.nextId\<close> and \<open>Book.nextId\<close>,
  both starting at 1. A reference is the id of its object. \<open>city_library\<close> is the
  library with the three books added to empty collections.
\<close>

definition author1 :: Author where
  "author1 = Author_constructor ''J.K. Rowling'' 1"

definition author2 :: Author where
  "author2 = Author_constructor ''George R.R. Martin'' 2"

definition book1 :: Book where
  "book1 = Book_constructor
     \<lparr>info_title = ''Harry Potter'', info_genre = ''Fantasy'', info_year = 1997,
      info_author = 1\<rparr> 1"

definition book2 :: Book where
  "book2 = Book_constructor
     \<lparr>info_title = ''Game of Thrones'', info_genre = ''Fantasy'', info_year = 1996,
      info_author = 2\<rparr> 2"

definition book3 :: Book where
  "book3 = Book_constructor
     \<lparr>info_title = ''A Clash of Kings'', info_genre = ''War'', info_year = 1998,
      info_author = 2\<rparr> 3"

definition city_store :: store where
  "city_store =
     \<lparr>bookAt = (\<lambda>r. if r = 1 then book1 else if r = 2 then book2 else book3),
      authorAt = (\<lambda>r. if r = 1 then author1 else author2)\<rparr>"

definition city_library :: Library where
  "city_library =
     \<lparr>lib_name = ''City Library'', books = Some [1, 2, 3], authors = Some [1, 2, 2],
      maxBooks = 100\<rparr>"

section \<open>The university\<close>

text \<open>
  The members of the two string enumerations that the code compares against.
\<close>

definition Role_student :: string where
  "Role_student = ''student''"

definition Role_teacher :: string where
  "Role_teacher = ''teacher''"

definition AcademicStatus_active :: string where
  "AcademicStatus_active = ''active''"

text \<open>
  A \<open>Date\<close> is read only through \<open>getFullYear()\<close>, \<open>getMonth()\<close> (0 to 11) and
  \<open>getDate()\<close> (1 to 31), so it is the record of these three integers.
\<close>

record Date =
  getFullYear :: int
  getMonth :: int
  getDate :: int

record ContactInfo =
  email :: string
  phone :: string

record Course =
  course_name :: string
  credits :: number
  discipline :: string

record AcademicPerformance =
  totalCredits :: number
  gpa :: number

record PersonInfo =
  info_firstName :: string
  info_lastName :: string
  info_birthDay :: Date
  info_gender :: string
  info_email :: string
  info_phone :: string

record Person =
  firstName :: string
  lastName :: string
  birthDay :: Date
  person_id :: number
  gender :: string
  contactInfo :: ContactInfo
  role :: string

record Teacher = Person +
  specializations :: "string list"
  teacher_courses :: "Course list"

record Student = Person +
  academicPerformance :: AcademicPerformance
  enrolledCourses :: "Course list"
  status :: string

record Group =
  group_name :: string
  course :: Course
  teacher :: Teacher
  students :: "Student list"

record University =
  univ_name :: string
  courses :: "Course list"
  groups :: "Group list"
  people :: "Person list"

text \<open>
  The constructors. \<open>Person.nextId++\<close> reads a counter shared by all people; its
  current value is the last argument.
\<close>

definition Course_constructor :: "string \<Rightarrow> string \<Rightarrow> number \<Rightarrow> Course" where
  "Course_constructor name' discipline' credits' =
     \<lparr>course_name = name', credits = credits', discipline = discipline'\<rparr>"

definition Teacher_constructor :: "PersonInfo \<Rightarrow> string list \<Rightarrow> number \<Rightarrow> Teacher" where
  "Teacher_constructor info specializations' nextId =
     \<lparr>firstName = info_firstName info, lastName = info_lastName info,
      birthDay = info_birthDay info, person_id = nextId, gender = info_gender info,
      contactInfo = \<lparr>email = info_email info, phone = info_phone info\<rparr>,
      role = Role_teacher, specializations = specializations', teacher_courses = []\<rparr>"

definition Student_constructor :: "PersonInfo \<Rightarrow> number \<Rightarrow> Student" where
  "Student_constructor info nextId =
     \<lparr>firstName = info_firstName info, lastName = info_lastName info,
      birthDay = info_birthDay info, person_id = nextId, gender = info_gender info,
      contactInfo = \<lparr>email = info_email info, phone = info_phone info\<rparr>,
      role = Role_student,
      academicPerformance = \<lparr>totalCredits = 0, gpa = 0\<rparr>,
      enrolledCourses = [], status = AcademicStatus_active\<rparr>"

definition Group_constructor :: "string \<Rightarrow> Course \<Rightarrow> Teacher \<Rightarrow> Group" where
  "Group_constructor name' course' teacher' =
     \<lparr>group_name = name', course = course', teacher = teacher', students = []\<rparr>"

definition University_constructor :: "string \<Rightarrow> University" where
  "University_constructor name' =
     \<lparr>univ_name = name', courses = [], groups = [], people = []\<rparr>"

definition updateAcademicStatus :: "Student \<Rightarrow> string \<Rightarrow> Student" where
  "updateAcademicStatus s newStatus = s\<lparr>status := newStatus\<rparr>"

text \<open>The \<open>age\<close> getter; \<open>today\<close> is the value of \<open>new Date()\<close>.\<close>

definition age :: "Date \<Rightarrow> 'a Person_scheme \<Rightarrow> int" where
  "age today p =
     (let age0 = getFullYear today - getFullYear (birthDay p);
          monthDiff = getMonth today - getMonth (birthDay p)
      in if monthDiff < 0 \<or> (monthDiff = 0 \<and> getDate today < getDate (birthDay p))
         then age0 - 1 else age0)"

definition enrollCourse :: "Student \<Rightarrow> Course \<Rightarrow> Student outcome" where
  "enrollCourse s c =
     (if status s \<noteq> AcademicStatus_active
      then Throw (UniversityError ''Cannot enroll: Student is not in active status'') s
      else
        (let s1 = s\<lparr>enrolledCourses := enrolledCourses s @ [c]\<rparr>
         in Done (s1\<lparr>academicPerformance :=
                    (academicPerformance s1)
                      \<lparr>totalCredits := totalCredits (academicPerformance s1) + credits c\<rparr>\<rparr>)))"

definition getAverageScore :: "Student \<Rightarrow> number" where
  "getAverageScore s = gpa (academicPerformance s)"

definition getStudentIdByGroup :: "Group \<Rightarrow> number \<Rightarrow> error + int" where
  "getStudentIdByGroup g i =
     (let index = findIndex (\<lambda>student. person_id student = i) (students g)
      in if logical_not (bitwise_not index)
         then Inl (UniversityError ''Student not found in group'')
         else Inr index)"

definition removeStudentById :: "Group \<Rightarrow> number \<Rightarrow> Group outcome" where
  "removeStudentById g i =
     (case getStudentIdByGroup g i of
        Inl e \<Rightarrow> Throw e g
      | Inr index \<Rightarrow> Done (g\<lparr>students := splice (students g) index 1\<rparr>))"

text \<open>
  The second declaration of \<open>Group\<close> in the file has no lookup helper:
  \<open>removeStudentById\<close> searches and tests the index itself.
\<close>

definition removeStudentById_inlined :: "Group \<Rightarrow> number \<Rightarrow> Group outcome" where
  "removeStudentById_inlined g i =
     (let index = findIndex (\<lambda>student. person_id student = i) (students g)
      in if logical_not (bitwise_not index)
         then Throw (UniversityError ''Student not found in group'') g
         else Done (g\<lparr>students := splice (students g) index 1\<rparr>))"

definition getAverageGroupScore :: "Group \<Rightarrow> quotient" where
  "getAverageGroupScore g =
     (if length (students g) \<noteq> 0 then Finite 0
      else
        (let totalScore = foldl (\<lambda>sum student. sum + getAverageScore student) 0 (students g)
         in js_div totalScore (of_nat (length (students g)))))"

text \<open>
  \<open>getAllPeopleByRole\<close> in the variant whose parameter is a plain \<open>string\<close>; the
  \<open>switch\<close> compares with strict equality and its default branch calls
  \<open>assertNeverRole\<close>.
\<close>

definition assertNeverRole :: "string \<Rightarrow> error + 'a" where
  "assertNeverRole r = Inl (Error (''Unhandled role: '' @ r))"

definition getAllPeopleByRole :: "University \<Rightarrow> string \<Rightarrow> error + Person list" where
  "getAllPeopleByRole u r =
     (if r = Role_student then Inr (filter (\<lambda>person. role person = ''student'') (people u))
      else if r = Role_teacher then Inr (filter (\<lambda>person. role person = ''teacher'') (people u))
      else assertNeverRole r)"

text \<open>
  \<open>day_after d e\<close>: the calendar fields of \<open>e\<close> are those of the day that follows
  \<open>d\<close>. The next day is in the same month, or the first of the next month, or the
  first of January after a day in December. Month lengths are not fixed here, so the
  relation holds for every pair of consecutive days of the calendar.
\<close>

definition day_after :: "Date \<Rightarrow> Date \<Rightarrow> bool" where
  "day_after d e \<longleftrightarrow>
     (getFullYear e = getFullYear d \<and> getMonth e = getMonth d \<and> getDate e = getDate d + 1)
     \<or> (getFullYear e = getFullYear d \<and> getMonth e = getMonth d + 1 \<and> getDate e = 1)
     \<or> (getFullYear e = getFullYear d + 1 \<and> getMonth d = 11 \<and> getMonth e = 0
          \<and> getDate e = 1)"

definition year_before :: "Date \<Rightarrow> Date" where
  "year_before d = d\<lparr>getFullYear := getFullYear d - 1\<rparr>"

text \<open>Objects for the examples: a course, three students, a teacher and a group.\<close>

definition info_of :: "string \<Rightarrow> Date \<Rightarrow> PersonInfo" where
  "info_of n d =
     \<lparr>info_firstName = n, info_lastName = ''Doe'', info_birthDay = d,
      info_gender = ''other'', info_email = ''info@university.com'',
      info_phone = ''+380955555555''\<rparr>"

definition algebra :: Course where
  "algebra = Course_constructor ''Algebra'' ''Mathematics'' 5"

definition ann :: Student where
  "ann = Student_constructor
           (info_of ''Ann'' \<lparr>getFullYear = 2004, getMonth = 5, getDate = 15\<rparr>) 1"

definition bob :: Student where
  "bob = Student_constructor
           (info_of ''Bob'' \<lparr>getFullYear = 2004, getMonth = 5, getDate = 16\<rparr>) 2"

definition cyd :: Student where
  "cyd = updateAcademicStatus
           (Student_constructor
              (info_of ''Cyd'' \<lparr>getFullYear = 2003, getMonth = 11, getDate = 31\<rparr>) 3)
           ''expelled''"

definition eve :: Teacher where
  "eve = Teacher_constructor
           (info_of ''Eve'' \<lparr>getFullYear = 1980, getMonth = 0, getDate = 1\<rparr>)
           [''Mathematics''] 4"

definition empty_group :: Group where
  "empty_group = Group_constructor ''M-0'' algebra eve"

definition full_group :: Group where
  "full_group = (Group_constructor ''M-1'' algebra eve)\<lparr>students := [ann, bob, cyd]\<rparr>"

definition campus :: University where
  "campus = (University_constructor ''Campus'')
              \<lparr>people := [Person.truncate ann, Person.truncate eve, Person.truncate bob]\<rparr>"

section \<open>Properties of the host language functions\<close>

lemma includes_str_sublist: "includes_str s sub \<longleftrightarrow> sublist sub s"
  by (induction s) (auto simp: sublist_Cons_right)

lemma foldl_add_sum_list:
  "foldl (\<lambda>sum x. sum + f x) a xs = a + sum_list (map f xs)" for a :: rat
  by (induction xs arbitrary: a) (simp_all add: add.assoc)

lemma findIndexFrom_none:
  "\<forall>x \<in> set xs. \<not> p x \<Longrightarrow> findIndexFrom p xs k = - 1"
  by (induction xs arbitrary: k) simp_all

lemma findIndexFrom_first:
  "i < length xs \<Longrightarrow> p (xs ! i) \<Longrightarrow> \<forall>j < i. \<not> p (xs ! j)
     \<Longrightarrow> findIndexFrom p xs k = k + int i"
proof (induction xs arbitrary: i k)
  case Nil
  then show ?case by simp
next
  case (Cons x xs)
  show ?case
  proof (cases i)
    case 0
    with Cons.prems show ?thesis by simp
  next
    case (Suc m)
    with Cons.prems have "\<not> p x" by auto
    moreover have "findIndexFrom p xs (k + 1) = k + 1 + int m"
    proof (rule Cons.IH)
      show "m < length xs" using Cons.prems Suc by simp
      show "p (xs ! m)" using Cons.prems Suc by simp
      show "\<forall>j < m. \<not> p (xs ! j)"
      proof (intro allI impI)
        fix j assume "j < m"
        then have "Suc j < i" using Suc by simp
        with Cons.prems(3) have "\<not> p ((x # xs) ! Suc j)" by blast
        then show "\<not> p (xs ! j)" by simp
      qed
    qed
    ultimately show ?thesis using Suc by simp
  qed
qed

text \<open>
  \<open>!~index\<close> holds for \<open>-1\<close> and fails for every index of an array: an array has
  fewer than \<open>2 ^ 32\<close> elements, so no index is mapped to the bit pattern of \<open>-1\<close>.
\<close>

lemma bitwise_not_zero_iff: "bitwise_not n = 0 \<longleftrightarrow> (word_of_int n :: 32 word) = - 1"
proof -
  have "bitwise_not n = 0 \<longleftrightarrow> NOT (word_of_int n :: 32 word) = 0"
    by (simp add: bitwise_not_def signed_eq_0_iff)
  also have "\<dots> \<longleftrightarrow> (word_of_int n :: 32 word) = NOT 0"
    by (metis bit.double_compl)
  finally show ?thesis by simp
qed

lemma logical_not_bitwise_not_minus_one: "logical_not (bitwise_not (- 1))"
  by (simp add: logical_not_def bitwise_not_zero_iff)

lemma logical_not_bitwise_not_index:
  assumes "0 \<le> i" and "i < 2 ^ 32 - 1"
  shows "\<not> logical_not (bitwise_not i)"
proof
  assume "logical_not (bitwise_not i)"
  then have "(word_of_int i :: 32 word) = - 1"
    by (simp add: logical_not_def bitwise_not_zero_iff)
  then have "uint (word_of_int i :: 32 word) = uint (- 1 :: 32 word)"
    by simp
  moreover have "uint (word_of_int i :: 32 word) = i"
    using assms by (simp add: uint_word_of_int)
  moreover have "uint (- 1 :: 32 word) = 2 ^ 32 - 1"
    by (simp add: unsigned_minus_1_eq_mask mask_eq_exp_minus_1)
  ultimately show False
    using assms by simp
qed

lemma splice_one:
  "i < length xs \<Longrightarrow> splice xs (int i) 1 = take i xs @ drop (Suc i) xs"
  by (simp add: splice_def Let_def min_def max_def nat_add_distrib)

section \<open>Properties of the group\<close>

text \<open>
  C1. \<open>getAverageGroupScore\<close> returns \<open>0\<close> for every group with at least one student.
  Only for a group without students does it reach the division of the sum of the
  members' \<open>getAverageScore()\<close> by the number of members; the divisor is then \<open>0\<close> and
  the value is \<open>0 / 0\<close>, not a number.
\<close>

theorem getAverageGroupScore_inverted_guard:
  "(students g \<noteq> [] \<longrightarrow> getAverageGroupScore g = Finite 0)
   \<and> (students g = [] \<longrightarrow>
        getAverageGroupScore g
          = js_div (sum_list (map getAverageScore (students g)))
              (of_nat (length (students g)))
        \<and> (of_nat (length (students g)) :: number) = 0
        \<and> getAverageGroupScore g = NaN)"
  by (simp add: getAverageGroupScore_def js_div_def foldl_add_sum_list)

theorem getAverageGroupScore_inverted_guard_witness:
  "students full_group \<noteq> [] \<and> getAverageGroupScore full_group = Finite 0
   \<and> students empty_group = [] \<and> getAverageGroupScore empty_group = NaN"
  using getAverageGroupScore_inverted_guard [of full_group]
    getAverageGroupScore_inverted_guard [of empty_group]
  by (simp add: full_group_def empty_group_def Group_constructor_def js_div_def)

lemma getStudentIdByGroup_absent:
  assumes "\<forall>s \<in> set (students g). person_id s \<noteq> n"
  shows "getStudentIdByGroup g n = Inl (UniversityError ''Student not found in group'')"
proof -
  have "findIndex (\<lambda>student. person_id student = n) (students g) = - 1"
    unfolding findIndex_def using assms by (intro findIndexFrom_none) simp
  then show ?thesis
    by (simp add: getStudentIdByGroup_def logical_not_bitwise_not_minus_one)
qed

lemma getStudentIdByGroup_present:
  assumes "length (students g) < 2 ^ 32"
    and "i < length (students g)" and "person_id (students g ! i) = n"
    and "\<forall>j < i. person_id (students g ! j) \<noteq> n"
  shows "getStudentIdByGroup g n = Inr (int i)"
proof -
  have "findIndex (\<lambda>student. person_id student = n) (students g) = int i"
    unfolding findIndex_def
    using findIndexFrom_first [of i "students g" "\<lambda>student. person_id student = n" 0] assms
    by simp
  moreover have "\<not> logical_not (bitwise_not (int i))"
  proof (rule logical_not_bitwise_not_index)
    show "0 \<le> int i" by simp
    have "int i < int (length (students g))" using assms(2) by simp
    also have "\<dots> \<le> 2 ^ 32 - 1" using assms(1) by simp
    finally show "int i < 2 ^ 32 - 1" .
  qed
  ultimately show ?thesis
    by (simp add: getStudentIdByGroup_def)
qed

text \<open>Both declarations of \<open>removeStudentById\<close> compute the same outcome.\<close>

lemma removeStudentById_inlined_eq: "removeStudentById_inlined g n = removeStudentById g n"
  by (simp add: removeStudentById_inlined_def removeStudentById_def getStudentIdByGroup_def
      Let_def)

text \<open>
  C6. Let the roster be an array (fewer than \<open>2 ^ 32\<close> elements). If no student of the
  group has the id \<open>n\<close>, \<open>removeStudentById\<close> throws a \<open>UniversityError\<close> and the
  group, so also the length of its roster, is as before. If \<open>i\<close> is the index of the
  student with id \<open>n\<close> (the first such index, which is what \<open>findIndex\<close> locates),
  the call removes exactly the element at index \<open>i\<close> and the roster is one shorter.
\<close>

theorem removeStudentById_spec:
  assumes "length (students g) < 2 ^ 32"
  shows "((\<forall>s \<in> set (students g). person_id s \<noteq> n) \<longrightarrow>
            (\<exists>msg. removeStudentById g n = Throw (UniversityError msg) g))
         \<and> (i < length (students g) \<and> person_id (students g ! i) = n
              \<and> (\<forall>j < i. person_id (students g ! j) \<noteq> n) \<longrightarrow>
            removeStudentById g n
              = Done (g\<lparr>students := take i (students g) @ drop (Suc i) (students g)\<rparr>)
            \<and> length (take i (students g) @ drop (Suc i) (students g))
                = length (students g) - 1)"
proof (intro conjI impI)
  assume "\<forall>s \<in> set (students g). person_id s \<noteq> n"
  then show "\<exists>msg. removeStudentById g n = Throw (UniversityError msg) g"
    by (simp add: removeStudentById_def getStudentIdByGroup_absent)
next
  assume h: "i < length (students g) \<and> person_id (students g ! i) = n
              \<and> (\<forall>j < i. person_id (students g ! j) \<noteq> n)"
  then have "getStudentIdByGroup g n = Inr (int i)"
    using assms by (intro getStudentIdByGroup_present) simp_all
  then show "removeStudentById g n
               = Done (g\<lparr>students := take i (students g) @ drop (Suc i) (students g)\<rparr>)"
    using h by (simp add: removeStudentById_def splice_one)
  show "length (take i (students g) @ drop (Suc i) (students g)) = length (students g) - 1"
    using h by simp
qed

theorem removeStudentById_spec_witness:
  "length (students full_group) < 2 ^ 32
   \<and> students full_group = [ann, bob, cyd]
   \<and> person_id ann = 1 \<and> person_id bob = 2 \<and> person_id cyd = 3
   \<and> removeStudentById full_group 7
       = Throw (UniversityError ''Student not found in group'') full_group
   \<and> removeStudentById full_group 2 = Done (full_group\<lparr>students := [ann, cyd]\<rparr>)"
proof -
  have len: "length (students full_group) < 2 ^ 32"
    by (simp add: full_group_def)
  have ids: "person_id ann = 1" "person_id bob = 2" "person_id cyd = 3"
    by (simp_all add: ann_def bob_def cyd_def Student_constructor_def updateAcademicStatus_def)
  have st: "students full_group = [ann, bob, cyd]"
    by (simp add: full_group_def)
  have absent: "\<forall>s \<in> set (students full_group). person_id s \<noteq> 7"
    by (simp add: st ids)
  have present: "(1::nat) < length (students full_group) \<and> person_id (students full_group ! 1) = 2
     \<and> (\<forall>j < (1::nat). person_id (students full_group ! j) \<noteq> 2)"
    by (simp add: st ids)
  have thrown: "removeStudentById full_group 7
       = Throw (UniversityError ''Student not found in group'') full_group"
    using removeStudentById_spec [OF len, where n = 7 and i = 0] absent
    by (simp add: removeStudentById_def getStudentIdByGroup_absent)
  have "removeStudentById full_group 2 = Done (full_group\<lparr>students := [ann, cyd]\<rparr>)"
    using removeStudentById_spec [OF len, where n = 2 and i = 1] present
    by (simp add: st)
  with len st ids thrown show ?thesis
    by simp
qed

section \<open>Properties of people and students\<close>

lemma year_before_fields:
  "getFullYear (year_before d) = getFullYear d - 1"
  "getMonth (year_before d) = getMonth d"
  "getDate (year_before d) = getDate d"
  by (simp_all add: year_before_def)

lemma age_year_before:
  assumes "birthDay p = year_before d"
  shows "age d p = 1"
  by (simp add: age_def assms year_before_fields)

lemma age_day_after_year_before:
  assumes "day_after (year_before d) (birthDay q)"
  shows "age d q = 0"
  using assms unfolding day_after_def year_before_fields
  by (elim disjE conjE) (simp_all add: age_def)

lemma age_year_before_day_after:
  assumes "day_after d e" and "birthDay q = year_before e"
  shows "age d q = 0"
  using assms(1) unfolding day_after_def
  by (elim disjE conjE) (simp_all add: age_def assms(2) year_before_fields)

text \<open>
  C9. For a person \<open>p\<close> and the current date \<open>d\<close>, \<open>age\<close> is the difference of the
  years, less one exactly when the month of \<open>d\<close> is earlier than the birth month, or
  the months are equal and the day of \<open>d\<close> is earlier than the birth day. In
  particular, if \<open>p\<close> was born exactly one year before \<open>d\<close> and \<open>q\<close> one day later
  (one year minus one day before \<open>d\<close>, whether the day is added before or after the
  year is subtracted), then \<open>age\<close> is \<open>1\<close> for \<open>p\<close> and one less, \<open>0\<close>, for \<open>q\<close>.
\<close>

theorem age_spec:
  "age d p
     = getFullYear d - getFullYear (birthDay p)
       - (if getMonth d < getMonth (birthDay p)
             \<or> (getMonth d = getMonth (birthDay p) \<and> getDate d < getDate (birthDay p))
          then 1 else 0)
   \<and> (birthDay p = year_before d
        \<and> (day_after (year_before d) (birthDay q)
             \<or> (\<exists>e. day_after d e \<and> birthDay q = year_before e))
        \<longrightarrow> age d p = 1 \<and> age d q = 0 \<and> age d q = age d p - 1)"
proof (intro conjI impI)
  show "age d p
     = getFullYear d - getFullYear (birthDay p)
       - (if getMonth d < getMonth (birthDay p)
             \<or> (getMonth d = getMonth (birthDay p) \<and> getDate d < getDate (birthDay p))
          then 1 else 0)"
    by (simp add: age_def Let_def)
next
  assume h: "birthDay p = year_before d
        \<and> (day_after (year_before d) (birthDay q)
             \<or> (\<exists>e. day_after d e \<and> birthDay q = year_before e))"
  then show p1: "age d p = 1"
    by (simp add: age_year_before)
  from h show q0: "age d q = 0"
    using age_day_after_year_before age_year_before_day_after by blast
  from p1 q0 show "age d q = age d p - 1"
    by simp
qed

theorem age_spec_witness:
  "birthDay cyd = year_before \<lparr>getFullYear = 2004, getMonth = 11, getDate = 31\<rparr>
   \<and> day_after (year_before \<lparr>getFullYear = 2004, getMonth = 11, getDate = 31\<rparr>)
        \<lparr>getFullYear = 2004, getMonth = 0, getDate = 1\<rparr>
   \<and> age \<lparr>getFullYear = 2004, getMonth = 11, getDate = 31\<rparr> cyd = 1
   \<and> age \<lparr>getFullYear = 2004, getMonth = 11, getDate = 31\<rparr>
        (cyd\<lparr>birthDay := \<lparr>getFullYear = 2004, getMonth = 0, getDate = 1\<rparr>\<rparr>) = 0
   \<and> birthDay ann = year_before \<lparr>getFullYear = 2005, getMonth = 5, getDate = 15\<rparr>
   \<and> day_after (birthDay ann) (birthDay bob)
   \<and> age \<lparr>getFullYear = 2005, getMonth = 5, getDate = 15\<rparr> ann = 1
   \<and> age \<lparr>getFullYear = 2005, getMonth = 5, getDate = 15\<rparr> bob = 0"
  using age_spec [of "\<lparr>getFullYear = 2004, getMonth = 11, getDate = 31\<rparr>" cyd
      "cyd\<lparr>birthDay := \<lparr>getFullYear = 2004, getMonth = 0, getDate = 1\<rparr>\<rparr>"]
    age_spec [of "\<lparr>getFullYear = 2005, getMonth = 5, getDate = 15\<rparr>" ann bob]
  by (simp add: year_before_def day_after_def cyd_def ann_def bob_def info_of_def
      updateAcademicStatus_def Student_constructor_def)

text \<open>
  C5. If the status of the student is not \<open>active\<close>, \<open>enrollCourse\<close> throws a
  \<open>UniversityError\<close> and the student is as before: neither \<open>enrolledCourses\<close> nor
  \<open>totalCredits\<close> has changed. If the status is \<open>active\<close>, the course is appended to
  \<open>enrolledCourses\<close> and \<open>totalCredits\<close> grows by exactly the credits of the course.
\<close>

theorem enrollCourse_spec:
  "(status s \<noteq> AcademicStatus_active \<longrightarrow>
      (\<exists>msg. enrollCourse s c = Throw (UniversityError msg) s))
   \<and> (status s = AcademicStatus_active \<longrightarrow>
      (\<exists>s'. enrollCourse s c = Done s'
         \<and> enrolledCourses s' = enrolledCourses s @ [c]
         \<and> totalCredits (academicPerformance s')
             = totalCredits (academicPerformance s) + credits c))"
  by (simp add: enrollCourse_def)

theorem enrollCourse_spec_witness:
  "status cyd \<noteq> AcademicStatus_active
   \<and> enrollCourse cyd algebra
       = Throw (UniversityError ''Cannot enroll: Student is not in active status'') cyd
   \<and> status ann = AcademicStatus_active
   \<and> (\<exists>s'. enrollCourse ann algebra = Done s' \<and> enrolledCourses s' = [algebra]
        \<and> totalCredits (academicPerformance s') = 5)"
  using enrollCourse_spec [of cyd algebra] enrollCourse_spec [of ann algebra]
  by (simp add: enrollCourse_def cyd_def ann_def updateAcademicStatus_def Student_constructor_def
      AcademicStatus_active_def algebra_def Course_constructor_def)

text \<open>
  C10. \<open>enrollCourse\<close> has no duplicate check. For a student whose status is \<open>active\<close>,
  two successive calls with the same course both succeed: the course is in
  \<open>enrolledCourses\<close> twice more and \<open>totalCredits\<close> has grown by its credits twice.
\<close>

theorem enrollCourse_twice:
  assumes "status s = AcademicStatus_active"
  shows "\<exists>s1 s2. enrollCourse s c = Done s1 \<and> enrollCourse s1 c = Done s2
           \<and> enrolledCourses s2 = enrolledCourses s @ [c, c]
           \<and> totalCredits (academicPerformance s2)
               = totalCredits (academicPerformance s) + credits c + credits c"
  using assms by (simp add: enrollCourse_def)

theorem enrollCourse_twice_witness:
  "status ann = AcademicStatus_active
   \<and> (\<exists>s1 s2. enrollCourse ann algebra = Done s1 \<and> enrollCourse s1 algebra = Done s2
           \<and> enrolledCourses s2 = [algebra, algebra]
           \<and> totalCredits (academicPerformance s2) = 10)"
proof -
  have active: "status ann = AcademicStatus_active"
    by (simp add: ann_def Student_constructor_def)
  have "enrolledCourses ann = []" and "totalCredits (academicPerformance ann) = 0"
    and "credits algebra = 5"
    by (simp_all add: ann_def Student_constructor_def algebra_def Course_constructor_def)
  with active enrollCourse_twice [OF active, of algebra] show ?thesis
    by simp
qed

section \<open>Properties of the university\<close>

text \<open>
  C7. For the role \<open>student\<close> and for the role \<open>teacher\<close>, \<open>getAllPeopleByRole\<close>
  returns exactly the people of the university whose stored role string is the given
  one, in their order. For every other role value it throws an error.
\<close>

theorem getAllPeopleByRole_spec:
  "(r = Role_student \<or> r = Role_teacher \<longrightarrow>
      getAllPeopleByRole u r = Inr (filter (\<lambda>person. role person = r) (people u)))
   \<and> (r \<noteq> Role_student \<and> r \<noteq> Role_teacher \<longrightarrow>
      (\<exists>msg. getAllPeopleByRole u r = Inl (Error msg)))"
  by (auto simp add: getAllPeopleByRole_def assertNeverRole_def Role_student_def Role_teacher_def)

theorem getAllPeopleByRole_spec_witness:
  "getAllPeopleByRole campus Role_student = Inr [Person.truncate ann, Person.truncate bob]
   \<and> getAllPeopleByRole campus Role_teacher = Inr [Person.truncate eve]
   \<and> ''dean'' \<noteq> Role_student \<and> ''dean'' \<noteq> Role_teacher
   \<and> getAllPeopleByRole campus ''dean'' = Inl (Error ''Unhandled role: dean'')"
  using getAllPeopleByRole_spec [of Role_student campus]
    getAllPeopleByRole_spec [of Role_teacher campus]
    getAllPeopleByRole_spec [of "''dean''" campus]
  by (simp add: getAllPeopleByRole_def assertNeverRole_def campus_def University_constructor_def
      Person.truncate_def ann_def bob_def eve_def Student_constructor_def Teacher_constructor_def
      Role_student_def Role_teacher_def)

section \<open>Properties of the library\<close>

text \<open>
  C2. The constructor assigns \<open>name\<close> and \<open>maxBooks\<close> only, so \<open>books\<close> and
  \<open>authors\<close> of a freshly constructed library are \<open>undefined\<close>. On such a library
  \<open>addBook\<close>, \<open>getBookById\<close>, \<open>getAuthorById\<close>, \<open>getBooksByAuthor\<close> and \<open>search\<close>
  call a method of the undefined field and fail with a \<open>TypeError\<close>, \<open>addBook\<close>
  leaving the library as constructed. \<open>getBooks\<close> and \<open>getAuthors\<close> only return the
  field: they do not throw, and their result is \<open>undefined\<close>, not an empty list.
\<close>

theorem Library_constructor_uninitialised:
  "books (Library_constructor n m) = None
   \<and> authors (Library_constructor n m) = None
   \<and> addBook h (Library_constructor n m) b = Throw TypeError (Library_constructor n m)
   \<and> getBookById h (Library_constructor n m) i = Inl TypeError
   \<and> getAuthorById h (Library_constructor n m) i = Inl TypeError
   \<and> getBooksByAuthor h (Library_constructor n m) x = Inl TypeError
   \<and> search h (Library_constructor n m) c = Inl TypeError
   \<and> getBooks (Library_constructor n m) = Inr None
   \<and> getAuthors (Library_constructor n m) = Inr None"
  by (cases x)
    (simp_all add: Library_constructor_def addBook_def getBookById_def getAuthorById_def
      search_def getBooks_def getAuthors_def)

theorem getBooks_uninitialised_counterexample:
  "getBooks (Library_constructor ''City Library'' 100) = Inr None
   \<and> getBooks (Library_constructor ''City Library'' 100) \<noteq> Inl TypeError
   \<and> getAuthors (Library_constructor ''City Library'' 100) = Inr None
   \<and> getAuthors (Library_constructor ''City Library'' 100) \<noteq> Inl TypeError"
  by (simp add: Library_constructor_def getBooks_def getAuthors_def)

text \<open>
  The callback of \<open>search\<close> agrees with the specification's matching rule once the
  string fields supplied as the empty string are taken out of the criteria, as long as
  the year is not supplied as \<open>0\<close>.
\<close>

lemma matches_omit_empty:
  assumes "crit_year c \<noteq> Some 0"
  shows "matches h c b \<longleftrightarrow> spec_matches h (omit_empty c) b"
proof (cases "crit_year c")
  case None
  then show ?thesis
    by (simp add: matches_def spec_matches_def omit_empty_def includes_str_sublist
        truthy_string_def split: option.splits)
next
  case (Some y)
  with assms have "y \<noteq> 0" by simp
  with Some show ?thesis
    by (simp add: matches_def spec_matches_def omit_empty_def includes_str_sublist
        truthy_string_def truthy_number_def split: option.splits)
qed

text \<open>
  C3, as amended. For a library whose \<open>books\<close> field holds an array and criteria whose
  year, if supplied, is not \<open>0\<close>, \<open>search\<close> returns exactly the books, in their
  order, for which at least one supplied field matches: title, genre and author name by
  case-insensitive containment, the year by equality. A field that is omitted
  contributes false, and so does a title, genre or author name supplied as the empty
  string: the guard of each field is its truthiness.
\<close>

theorem search_spec:
  assumes "books l = Some bs" and "crit_year c \<noteq> Some 0"
  shows "search h l c = Inr (filter (spec_matches h (omit_empty c)) bs)"
proof -
  have "filter (matches h c) bs = filter (spec_matches h (omit_empty c)) bs"
    by (rule filter_cong [OF refl]) (simp add: matches_omit_empty assms(2))
  then show ?thesis
    by (simp add: search_def assms(1))
qed

theorem search_spec_witness:
  "books city_library = Some [1, 2, 3]
   \<and> crit_year \<lparr>crit_title = Some ''Harry'', crit_genre = Some ''Fantasy'', crit_year = None,
         crit_authorName = None\<rparr> \<noteq> Some 0
   \<and> search city_store city_library
        \<lparr>crit_title = Some ''Harry'', crit_genre = Some ''Fantasy'', crit_year = None,
         crit_authorName = None\<rparr> = Inr [1, 2]
   \<and> crit_year \<lparr>crit_title = Some '''', crit_genre = None, crit_year = Some 1998,
         crit_authorName = Some ''MARTIN''\<rparr> \<noteq> Some 0
   \<and> search city_store city_library
        \<lparr>crit_title = Some '''', crit_genre = None, crit_year = Some 1998,
         crit_authorName = Some ''MARTIN''\<rparr> = Inr [2, 3]"
proof -
  have b: "books city_library = Some [1, 2, 3]"
    by (simp add: city_library_def)
  have y1: "crit_year \<lparr>crit_title = Some ''Harry'', crit_genre = Some ''Fantasy'',
         crit_year = None, crit_authorName = None\<rparr> \<noteq> Some 0"
    and y2: "crit_year \<lparr>crit_title = Some '''', crit_genre = None, crit_year = Some 1998,
         crit_authorName = Some ''MARTIN''\<rparr> \<noteq> Some 0"
    by simp_all
  have "filter (spec_matches city_store (omit_empty
          \<lparr>crit_title = Some ''Harry'', crit_genre = Some ''Fantasy'', crit_year = None,
           crit_authorName = None\<rparr>)) [1, 2, 3] = [1, 2]"
    and "filter (spec_matches city_store (omit_empty
          \<lparr>crit_title = Some '''', crit_genre = None, crit_year = Some 1998,
           crit_authorName = Some ''MARTIN''\<rparr>)) [1, 2, 3] = [2, 3]"
    by code_simp+
  with b y1 y2 search_spec [OF b y1, of city_store] search_spec [OF b y2, of city_store]
  show ?thesis
    by simp
qed

text \<open>
  The rule as first stated fails on a supplied empty title, which is contained in every
  title, and on the supplied year \<open>0\<close> for a book of the year \<open>0\<close>: \<open>search\<close> returns
  no book in both cases.
\<close>

theorem search_falsy_counterexample:
  "books city_library = Some [1, 2, 3]
   \<and> search city_store city_library
        \<lparr>crit_title = Some '''', crit_genre = None, crit_year = None, crit_authorName = None\<rparr>
      = Inr []
   \<and> filter (spec_matches city_store
        \<lparr>crit_title = Some '''', crit_genre = None, crit_year = None, crit_authorName = None\<rparr>)
        [1, 2, 3] = [1, 2, 3]
   \<and> search (city_store\<lparr>bookAt := (bookAt city_store)(3 := book3\<lparr>year := 0\<rparr>)\<rparr>) city_library
        \<lparr>crit_title = None, crit_genre = None, crit_year = Some 0, crit_authorName = None\<rparr>
      = Inr []
   \<and> filter (spec_matches (city_store\<lparr>bookAt := (bookAt city_store)(3 := book3\<lparr>year := 0\<rparr>)\<rparr>)
        \<lparr>crit_title = None, crit_genre = None, crit_year = Some 0, crit_authorName = None\<rparr>)
        [1, 2, 3] = [3]"
  by code_simp

text \<open>
  Starting from empty collections, the three \<open>addBook\<close> calls of the source build
  \<open>city_library\<close>; the author of the second and third book is listed twice.
\<close>

lemma city_library_built:
  "addBook city_store
     ((Library_constructor ''City Library'' 100)\<lparr>books := Some [], authors := Some []\<rparr>) 1
     = Done ((Library_constructor ''City Library'' 100)\<lparr>books := Some [1], authors := Some [1]\<rparr>)
   \<and> addBook city_store
     ((Library_constructor ''City Library'' 100)\<lparr>books := Some [1], authors := Some [1]\<rparr>) 2
     = Done ((Library_constructor ''City Library'' 100)
               \<lparr>books := Some [1, 2], authors := Some [1, 2]\<rparr>)
   \<and> addBook city_store
     ((Library_constructor ''City Library'' 100)\<lparr>books := Some [1, 2], authors := Some [1, 2]\<rparr>) 3
     = Done city_library"
  by (simp add: addBook_def Library_constructor_def city_library_def city_store_def
      book1_def book2_def book3_def Book_constructor_def)

text \<open>
  C4. \<open>addBook\<close> is to throw a \<open>LibraryError\<close> for a book reference already present
  or a full library, and otherwise to append the book to \<open>books\<close> and its author to
  \<open>authors\<close>, on every library. On the library of the source,
  \<open>new Library("City Library", 100)\<close>, the first call \<open>addBook(book1)\<close> does neither:
  the constructor has left \<open>books\<close> undefined, and the call throws a \<open>TypeError\<close>.
  With empty arrays in the two fields the same call appends the book and its author.
\<close>

theorem addBook_fresh_library_TypeError:
  "books (Library_constructor ''City Library'' 100) = None
   \<and> authors (Library_constructor ''City Library'' 100) = None
   \<and> addBook city_store (Library_constructor ''City Library'' 100) 1
       = Throw TypeError (Library_constructor ''City Library'' 100)
   \<and> addBook city_store
         ((Library_constructor ''City Library'' 100)\<lparr>books := Some [], authors := Some []\<rparr>) 1
       = Done ((Library_constructor ''City Library'' 100)
                 \<lparr>books := Some [1], authors := Some [1]\<rparr>)"
  by (simp add: addBook_def Library_constructor_def city_store_def book1_def
      Book_constructor_def)

text \<open>
  On a library whose \<open>books\<close> field holds an array: if the book reference is already
  in \<open>books\<close>, or the length of \<open>books\<close> has reached \<open>maxBooks\<close>, \<open>addBook\<close> throws a
  \<open>LibraryError\<close> and the library, so also the length of \<open>books\<close>, is as before.
  Otherwise (\<open>authors\<close> holding an array too) the book is appended to \<open>books\<close> and its
  author to \<open>authors\<close>, whether or not that author is already listed.
\<close>

lemma addBook_on_arrays:
  assumes "books l = Some bs"
  shows "(b \<in> set bs \<or> maxBooks l \<le> of_nat (length bs) \<longrightarrow>
           (\<exists>msg. addBook h l b = Throw (LibraryError msg) l))
         \<and> (b \<notin> set bs \<and> of_nat (length bs) < maxBooks l \<and> authors l = Some as \<longrightarrow>
           addBook h l b
             = Done (l\<lparr>books := Some (bs @ [b]),
                      authors := Some (as @ [author (bookAt h b)])\<rparr>))"
  using assms by (simp add: addBook_def)

lemma addBook_on_arrays_example:
  "books city_library = Some [1, 2, 3]
   \<and> addBook city_store city_library 1
       = Throw (LibraryError ''Book is already in the library'') city_library
   \<and> addBook city_store (city_library\<lparr>maxBooks := 3\<rparr>) 4
       = Throw (LibraryError ''Storage of book is full'') (city_library\<lparr>maxBooks := 3\<rparr>)
   \<and> addBook city_store (city_library\<lparr>books := Some [1, 2], authors := Some [1, 2]\<rparr>) 3
       = Done city_library"
proof -
  have b: "books city_library = Some [1, 2, 3]"
    and b3: "books (city_library\<lparr>maxBooks := 3\<rparr>) = Some [1, 2, 3]"
    and b2: "books (city_library\<lparr>books := Some [1, 2], authors := Some [1, 2]\<rparr>) = Some [1, 2]"
    by (simp_all add: city_library_def)
  show ?thesis
    using b addBook_on_arrays [OF b, where b = 1 and h = city_store]
      addBook_on_arrays [OF b3, where b = 4 and h = city_store]
      addBook_on_arrays [OF b2, where b = 3 and h = city_store and as = "[1, 2]"]
    by (simp add: addBook_def city_library_def city_store_def book3_def Book_constructor_def)
qed

text \<open>
  C8. \<open>getBooksByAuthor\<close> is to return the books of the author with the given id, or
  of the author whose name is the given string up to case, on every library. On the
  library of the source, \<open>new Library("City Library", 100)\<close>, both forms of the call
  return nothing: \<open>books\<close> is undefined, and the call throws a \<open>TypeError\<close>. With an
  empty array in the field the result is the empty list, and on the library holding
  the three books the query \<open>j.k. rowling\<close> finds the book of \<open>J.K. Rowling\<close>.
\<close>

theorem getBooksByAuthor_fresh_library_TypeError:
  "books (Library_constructor ''City Library'' 100) = None
   \<and> getBooksByAuthor city_store (Library_constructor ''City Library'' 100) (IdNumber 1)
       = Inl TypeError
   \<and> getBooksByAuthor city_store (Library_constructor ''City Library'' 100)
         (NameString ''j.k. rowling'')
       = Inl TypeError
   \<and> getBooksByAuthor city_store ((Library_constructor ''City Library'' 100)\<lparr>books := Some []\<rparr>)
         (NameString ''j.k. rowling'')
       = Inr []
   \<and> getBooksByAuthor city_store city_library (NameString ''j.k. rowling'') = Inr [1]"
  by code_simp

text \<open>
  On a library whose \<open>books\<close> field holds an array, \<open>getBooksByAuthor\<close> given a number
  returns the books whose author has that id, and given a string returns the books
  whose author's name equals the string after both are put in upper case. So the
  query \<open>j.k. rowling\<close> finds every book of the library whose author is named
  \<open>J.K. Rowling\<close>.
\<close>

lemma getBooksByAuthor_on_arrays:
  assumes "books l = Some bs"
  shows "getBooksByAuthor h l (IdNumber n)
           = Inr (filter (\<lambda>b. author_id (authorAt h (author (bookAt h b))) = n) bs)
         \<and> getBooksByAuthor h l (NameString s)
           = Inr (filter (\<lambda>b. toLocaleUpperCase (author_name (authorAt h (author (bookAt h b))))
                               = toLocaleUpperCase s) bs)
         \<and> (b \<in> set bs \<and> author_name (authorAt h (author (bookAt h b))) = ''J.K. Rowling'' \<longrightarrow>
              (\<exists>r. getBooksByAuthor h l (NameString ''j.k. rowling'') = Inr r \<and> b \<in> set r))"
proof -
  have "toLocaleUpperCase ''J.K. Rowling'' = toLocaleUpperCase ''j.k. rowling''"
    by code_simp
  then show ?thesis
    using assms by simp
qed

lemma getBooksByAuthor_on_arrays_example:
  "books city_library = Some [1, 2, 3]
   \<and> getBooksByAuthor city_store city_library (IdNumber 2) = Inr [2, 3]
   \<and> getBooksByAuthor city_store city_library (NameString ''j.k. rowling'') = Inr [1]
   \<and> author_name (authorAt city_store (author (bookAt city_store 1))) = ''J.K. Rowling''"
proof -
  have b: "books city_library = Some [1, 2, 3]"
    by (simp add: city_library_def)
  have "filter (\<lambda>b. author_id (authorAt city_store (author (bookAt city_store b))) = 2) [1, 2, 3]
          = [2, 3]"
    and "filter (\<lambda>b. toLocaleUpperCase (author_name (authorAt city_store (author (bookAt city_store b))))
                               = toLocaleUpperCase ''j.k. rowling'') [1, 2, 3] = [1]"
    and "author_name (authorAt city_store (author (bookAt city_store 1))) = ''J.K. Rowling''"
    by code_simp+
  then show ?thesis
    using b getBooksByAuthor_on_arrays [OF b, where h = city_store and n = 2
        and s = "''j.k. rowling''" and b = 1]
    by simp
qed

end
